theory Spec2Isabelle
  imports Complex_Main "HOL-Library.Log_Nat"
begin

section \<open>The HTTP handler of electrumx (electrumx/server/http\_session.py)\<close>

text \<open>
  A shallow embedding of the class \<open>HttpHandler\<close>. Every \<open>raise\<close> of the source and
  every exception of a Python built-in it uses is a value \<open>Inl e\<close> of a sum type; a
  coroutine is modelled by the value it returns. The collaborators of the handler (the
  daemon, the database, the mempool, the coin class) live outside the file and are
  fields of the record \<open>handler\<close>: during one request each answers as a function of its
  arguments.
\<close>

subsection \<open>Exceptions\<close>

datatype error =
    Exception string          \<comment> \<open>\<open>raise Exception(msg)\<close>\<close>
  | KeyError string           \<comment> \<open>\<open>d[k]\<close> on a missing key\<close>
  | IndexError                \<comment> \<open>\<open>xs[i]\<close> out of range\<close>
  | TypeError                 \<comment> \<open>an operation on \<open>None\<close>\<close>
  | ValueError                \<comment> \<open>\<open>math domain error\<close>\<close>
  | UnboundLocalError string  \<comment> \<open>a local variable read before any assignment\<close>
  | ZeroDivisionError
  | OverflowError
  | InvalidOperation          \<comment> \<open>\<open>decimal.InvalidOperation\<close>\<close>
  | UpstreamFailure string    \<comment> \<open>whatever a collaborator raises, passed through\<close>

definition and_then :: "error + 'a \<Rightarrow> ('a \<Rightarrow> error + 'b) \<Rightarrow> error + 'b" where
  "and_then m f = (case m of Inl e \<Rightarrow> Inl e | Inr x \<Rightarrow> f x)"

text \<open>
  \<open>asyncio.gather(*coros)\<close>: the list of all results when every branch returns,
  otherwise an exception of a failing branch. The model takes the branches by their
  outcomes and reports the first failure in list order.
\<close>

fun gather :: "(error + 'a) list \<Rightarrow> error + 'a list" where
  "gather [] = Inr []"
| "gather (Inl e # rest) = Inl e"
| "gather (Inr x # rest) = (case gather rest of Inl e \<Rightarrow> Inl e | Inr xs \<Rightarrow> Inr (x # xs))"

text \<open>Python truthiness of a value that is \<open>None\<close>, or a list or a string.\<close>

fun truthy :: "'a list option \<Rightarrow> bool" where
  "truthy None = False"
| "truthy (Some []) = False"
| "truthy (Some (x # xs)) = True"

subsection \<open>Data that crosses the handler\<close>

type_synonym bytes = string

text \<open>
  A decoded script, as the daemon returns it for \<open>decode_scripts\<close> and inside the
  \<open>scriptPubKey\<close> of a transaction output. A field is \<open>None\<close> when the key is missing.
\<close>

record segwit =
  sw_addresses :: "string list option"

record script_pub_key =
  spk_addresses :: "string list option"
  spk_type :: "string option"
  spk_segwit :: "segwit option"
  spk_hex :: "string option"

record vin_item =
  vin_txid :: "string option"
  vin_vout :: "int option"

text \<open>
  A number that the JSON parser produced: a Python \<open>int\<close> when the text has no fraction
  and no exponent, and otherwise a \<open>float\<close>, a binary64 number, here finite and given by
  its rational value.
\<close>

datatype number = PyInt int | PyFloat rat

record vout_item =
  vout_value :: "number option"
  vout_scriptPubKey :: "script_pub_key option"
  vout_n :: "int option"

text \<open>
  A transaction detail of the daemon, a dictionary that is not empty; a record whose
  fields are all \<open>None\<close> is a dictionary with none of these keys.
\<close>

record tx_detail =
  td_txid :: "string option"
  td_confirmations :: "int option"
  td_time :: "int option"
  td_vin :: "vin_item list option"
  td_vout :: "vout_item list option"

text \<open>\<open>UTXO\<close> of the database: \<open>utxo.tx_hash\<close>, \<open>utxo.tx_pos\<close>, \<open>utxo.height\<close>, \<open>utxo.value\<close>.\<close>

record utxo =
  tx_num :: int
  tx_pos :: int
  tx_hash :: bytes
  height :: int
  utxo_value :: int

text \<open>The dictionary that \<open>hashX_listunspent\<close> builds for one utxo.\<close>

record unspent =
  u_tx_hash :: string
  u_tx_pos :: int
  u_height :: int
  u_value :: int

subsection \<open>Pagination (\<open>history\<close>, lines 101 to 113)\<close>

definition MAX_TX_QUERY :: int where
  "MAX_TX_QUERY = 50"

text \<open>A value returned to the transport: a plain response with a status, or JSON.\<close>

datatype 'a response = Response nat string | JsonResponse 'a

text \<open>
  The checks on the parsed \<open>from\<close> and \<open>to\<close>: the rejection (\<open>Inl\<close>, the text of the
  400 response) or the window that the per-address pipelines use.
\<close>

definition check_pagination :: "int \<Rightarrow> int \<Rightarrow> string + int \<times> int" where
  "check_pagination query_from query_to =
     (if query_from < 0 then
        Inl ''query value 'from' must be greater than or equal to 0''
      else if query_to < 0 then
        Inl ''query value 'to' must be greater than or equal to 0''
      else if query_from > query_to then
        Inl (''query value 'from' must be less than query value 'to'' @ [CHR 0x27])
      else if query_to > query_from + MAX_TX_QUERY then
        Inr (query_from, query_from + MAX_TX_QUERY)
      else Inr (query_from, query_to))"

subsection \<open>\<open>get_addrs_from_script_list\<close>\<close>

definition get_addrs_from_script :: "script_pub_key option \<Rightarrow> string list option" where
  "get_addrs_from_script s =
     (case s of
        None \<Rightarrow> None
      | Some d \<Rightarrow>
          if truthy (spk_addresses d) then spk_addresses d
          else if spk_type d = Some ''nonstandard'' then
            (case spk_segwit d of
               None \<Rightarrow> None
             | Some sw \<Rightarrow> if truthy (sw_addresses sw) then sw_addresses sw else None)
          else None)"

fun get_addrs_from_script_list :: "script_pub_key option list \<Rightarrow> string list option list" where
  "get_addrs_from_script_list [] = []"
| "get_addrs_from_script_list (s # script_list) =
     get_addrs_from_script s # get_addrs_from_script_list script_list"

subsection \<open>Binary floating point and \<open>Decimal\<close>\<close>

text \<open>
  A Python \<open>float\<close> is a binary64 number; the finite ones are rationals. \<open>binary64 q\<close>
  is the float nearest to \<open>q\<close> (ties to the even significand, subnormals included),
  and \<open>None\<close> when the rounded magnitude leaves the finite range.
\<close>

definition pow2 :: "int \<Rightarrow> rat" where
  "pow2 i = (if 0 \<le> i then 2 ^ nat i else 1 / 2 ^ nat (- i))"

definition round_half_even :: "rat \<Rightarrow> int" where
  "round_half_even x =
     (let f = \<lfloor>x\<rfloor>; d = x - of_int f
      in if d < 1 / 2 then f else if 1 / 2 < d then f + 1 else if even f then f else f + 1)"

text \<open>For \<open>a > 0\<close>, the exponent \<open>e\<close> with \<open>2 ^ e \<le> a < 2 ^ (e + 1)\<close>.\<close>

definition ilog2 :: "rat \<Rightarrow> int" where
  "ilog2 a =
     (let p = fst (quotient_of a); q = snd (quotient_of a);
          d = bitlen p - bitlen q
      in if pow2 d \<le> a then d else d - 1)"

definition binary64 :: "rat \<Rightarrow> rat option" where
  "binary64 q =
     (if q = 0 then Some 0
      else
        let a = \<bar>q\<bar>;
            t = max (ilog2 a - 52) (- 1074);
            r = of_int (round_half_even (a / pow2 t)) * pow2 t
        in if pow2 1024 \<le> r then None else Some (sgn q * r))"

text \<open>\<open>a / b\<close> on two Python integers: the correctly rounded quotient.\<close>

definition py_truediv :: "int \<Rightarrow> int \<Rightarrow> error + rat" where
  "py_truediv a b =
     (if b = 0 then Inl ZeroDivisionError
      else case binary64 (of_int a / of_int b) of
             None \<Rightarrow> Inl OverflowError
           | Some x \<Rightarrow> Inr x)"

text \<open>A float that may be an infinity or a NaN, and \<open>int(x)\<close> on it: the truncation toward zero.\<close>

datatype pyfloat = Finite rat | Infinity | NaN

definition py_int :: "pyfloat \<Rightarrow> error + int" where
  "py_int x =
     (case x of
        Finite q \<Rightarrow> Inr (if 0 \<le> q then \<lfloor>q\<rfloor> else \<lceil>q\<rceil>)
      | Infinity \<Rightarrow> Inl OverflowError
      | NaN \<Rightarrow> Inl ValueError)"

text \<open>
  \<open>math.log(x, base)\<close> on two Python integers, as CPython computes it. \<open>m_log\<close> is the
  logarithm of the C library on doubles. Each argument is converted to a double and
  passed to \<open>m_log\<close>; an integer beyond the doubles is split into a significand in
  \<open>[0.5, 1)\<close>, rounded to 53 bits, and an exponent \<open>e\<close>, and its logarithm is
  \<open>m_log(significand) + m_log(2.0) * e\<close> in binary64 arithmetic (\<open>None\<close>: an infinity).
  The result is the binary64 quotient of the two logarithms.
\<close>

definition loghelper :: "(rat \<Rightarrow> rat) \<Rightarrow> int \<Rightarrow> error + rat option" where
  "loghelper m_log x =
     (if x \<le> 0 then Inl ValueError
      else case binary64 (of_int x) of
        Some d \<Rightarrow> Inr (Some (m_log d))
      | None \<Rightarrow>
          (let e0 = bitlen x;
               m0 = binary64 (of_int x / pow2 e0);
               m = (if m0 = Some 1 then Some (1 / 2) else m0);
               e = (if m0 = Some 1 then e0 + 1 else e0)
           in case m of
                None \<Rightarrow> Inl OverflowError
              | Some significand \<Rightarrow>
                  (case binary64 (m_log 2 * of_int e) of
                     None \<Rightarrow> Inr None
                   | Some t \<Rightarrow> Inr (binary64 (m_log significand + t)))))"

definition math_log :: "(rat \<Rightarrow> rat) \<Rightarrow> int \<Rightarrow> int \<Rightarrow> error + pyfloat" where
  "math_log m_log x base =
     (case loghelper m_log x of
        Inl e \<Rightarrow> Inl e
      | Inr num \<Rightarrow>
          (case loghelper m_log base of
             Inl e \<Rightarrow> Inl e
           | Inr den \<Rightarrow>
               (case den of
                  None \<Rightarrow> (case num of None \<Rightarrow> Inr NaN | Some n \<Rightarrow> Inr (Finite 0))
                | Some d \<Rightarrow>
                    if d = 0 then Inl ZeroDivisionError
                    else
                      (case num of
                         None \<Rightarrow> Inr Infinity
                       | Some n \<Rightarrow>
                           (case binary64 (n / d) of
                              None \<Rightarrow> Inr Infinity
                            | Some q \<Rightarrow> Inr (Finite q))))))"

text \<open>
  \<open>reduce(lambda sum, x: sum + x["value"], xs, 0)\<close>. The accumulator starts as the
  integer 0. It stays an integer, exactly, while integers are added; the first float
  makes it a float, and from then on every sum is rounded to binary64. An integer that
  meets a float is converted to a float first, which raises \<open>OverflowError\<close> beyond the
  doubles. A sum that leaves the finite range is an infinity, which absorbs every finite
  summand. A summand that is \<open>None\<close> in Python raises \<open>TypeError\<close>.
\<close>

datatype accumulator = AInt int | AFloat rat | AInf

definition float_add :: "rat \<Rightarrow> rat \<Rightarrow> accumulator" where
  "float_add a b = (case binary64 (a + b) of None \<Rightarrow> AInf | Some r \<Rightarrow> AFloat r)"

fun py_add :: "accumulator \<Rightarrow> number \<Rightarrow> error + accumulator" where
  "py_add (AInt a) (PyInt b) = Inr (AInt (a + b))"
| "py_add (AInt a) (PyFloat y) =
     (case binary64 (of_int a) of
        None \<Rightarrow> Inl OverflowError
      | Some fa \<Rightarrow> Inr (float_add fa y))"
| "py_add (AFloat s) (PyInt b) =
     (case binary64 (of_int b) of
        None \<Rightarrow> Inl OverflowError
      | Some fb \<Rightarrow> Inr (float_add s fb))"
| "py_add (AFloat s) (PyFloat y) = Inr (float_add s y)"
| "py_add AInf (PyInt b) =
     (case binary64 (of_int b) of
        None \<Rightarrow> Inl OverflowError
      | Some fb \<Rightarrow> Inr AInf)"
| "py_add AInf (PyFloat y) = Inr AInf"

fun reduce_sum :: "accumulator \<Rightarrow> number option list \<Rightarrow> error + accumulator" where
  "reduce_sum acc [] = Inr acc"
| "reduce_sum acc (None # xs) = Inl TypeError"
| "reduce_sum acc (Some x # xs) =
     (case py_add acc x of
        Inl e \<Rightarrow> Inl e
      | Inr acc' \<Rightarrow> reduce_sum acc' xs)"

text \<open>
  \<open>round(Decimal(v), P)\<close> for a finite \<open>v\<close> (\<open>None\<close>: an infinity): the conversion to
  \<open>Decimal\<close> is exact, the rounding is \<open>quantize\<close> to \<open>P\<close> places (to a multiple of
  \<open>10 ^ - P\<close> when \<open>P\<close> is negative), half to even, and raises \<open>InvalidOperation\<close> on an
  infinity and when the coefficient needs more than the 28 digits of the context.
\<close>

definition pow10 :: "int \<Rightarrow> rat" where
  "pow10 i = (if 0 \<le> i then 10 ^ nat i else 1 / 10 ^ nat (- i))"

definition round_decimal :: "int \<Rightarrow> rat option \<Rightarrow> error + rat" where
  "round_decimal P v =
     (case v of
        None \<Rightarrow> Inl InvalidOperation
      | Some q \<Rightarrow>
          let c = round_half_even (q * pow10 P)
          in if 10 ^ 28 \<le> \<bar>c\<bar> then Inl InvalidOperation else Inr (of_int c / pow10 P))"

text \<open>The value of the accumulator as \<open>Decimal\<close> takes it.\<close>

definition accumulated :: "accumulator \<Rightarrow> rat option" where
  "accumulated acc = (case acc of AInt a \<Rightarrow> Some (of_int a) | AFloat s \<Rightarrow> Some s | AInf \<Rightarrow> None)"

subsection \<open>The handler and its collaborators\<close>

text \<open>A deserialized transaction: \<open>tx.outputs[n].value\<close> and \<open>.pk_script\<close>.\<close>

record tx_output =
  txo_value :: int
  pk_script :: bytes

record tx =
  outputs :: "tx_output list"

record mem_summary =
  summary_hash :: bytes

text \<open>An entry of \<open>mempool.detail\<close> that is not empty: a dictionary, which may hold a time.\<close>

record memtx =
  mt_time :: "int option"

text \<open>
  \<open>self\<close>. \<open>prec\<close> is the attribute that \<open>__init__\<close> sets. \<open>utxo_order\<close> is the key by
  which Python compares two \<open>UTXO\<close> tuples, \<open>hash_to_hex_str\<close> is the function of
  electrumx.lib.hash, and \<open>coin_address_to_hashX\<close> is \<open>None\<close> where the coin raises.
  \<open>mempool_detail\<close> is \<open>self.mempool.detail.get\<close>: \<open>None\<close> when the snapshot has no
  entry for the txid or an empty one, both of which \<open>if memtx:\<close> skips. A daemon field
  is \<open>daemon_request\<close> at that method name.
\<close>

record 'k handler =
  coin_address_to_hashX :: "string \<Rightarrow> bytes option"
  coin_VALUE_PER_COIN :: int
  coin_DESERIALIZER :: "bytes \<Rightarrow> error + tx"
  prec :: int
  hash_to_hex_str :: "bytes \<Rightarrow> string"
  utxo_order :: "utxo \<Rightarrow> 'k"
  db_all_utxos :: "bytes \<Rightarrow> error + utxo list"
  mempool_unordered_UTXOs :: "bytes \<Rightarrow> error + utxo list"
  mempool_potential_spends :: "bytes \<Rightarrow> error + (bytes \<times> int) set"
  mempool_transaction_summaries :: "bytes \<Rightarrow> error + mem_summary list"
  mempool_detail :: "string option \<Rightarrow> memtx option"
  session_mgr_history :: "bytes \<Rightarrow> error + (bytes \<times> int) list"
  daemon_getrawtransactions :: "string option list \<Rightarrow> error + bytes list"
  daemon_getdetailedtransactions :: "string option list \<Rightarrow> error + tx_detail option list"
  daemon_decode_scripts :: "string list \<Rightarrow> error + script_pub_key option list"

definition address_to_hashX :: "('k, 'z) handler_scheme \<Rightarrow> string \<Rightarrow> error + bytes" where
  "address_to_hashX self address =
     (case coin_address_to_hashX self address of
        Some hashX \<Rightarrow> Inr hashX
      | None \<Rightarrow> Inl (Exception (address @ '' is not a valid address'')))"


subsection \<open>\<open>hashX_listunspent\<close>\<close>

definition utxo_dict :: "('k, 'z) handler_scheme \<Rightarrow> utxo \<Rightarrow> unspent" where
  "utxo_dict self u =
     \<lparr>u_tx_hash = hash_to_hex_str self (tx_hash u), u_tx_pos = tx_pos u,
      u_height = height u, u_value = utxo_value u\<rparr>"

definition hashX_listunspent ::
  "('k :: linorder, 'z) handler_scheme \<Rightarrow> bytes \<Rightarrow> error + unspent list" where
  "hashX_listunspent self hashX =
     and_then (db_all_utxos self hashX) (\<lambda>stored.
     and_then (mempool_unordered_UTXOs self hashX) (\<lambda>unordered.
     and_then (mempool_potential_spends self hashX) (\<lambda>spends.
       Inr (map (utxo_dict self)
             (filter (\<lambda>u. (tx_hash u, tx_pos u) \<notin> spends)
                (sort_key (utxo_order self) stored @ unordered))))))"

subsection \<open>\<open>get_txid_list\<close>\<close>

definition get_unconfirmed_list :: "('k, 'z) handler_scheme \<Rightarrow> bytes \<Rightarrow> error + string list" where
  "get_unconfirmed_list self hashX =
     and_then (mempool_transaction_summaries self hashX) (\<lambda>unconfirmed_list.
       Inr (map (\<lambda>t. hash_to_hex_str self (summary_hash t)) unconfirmed_list))"

definition get_confirmed_list :: "('k, 'z) handler_scheme \<Rightarrow> bytes \<Rightarrow> error + string list" where
  "get_confirmed_list self hashX =
     and_then (session_mgr_history self hashX) (\<lambda>confirmed_list.
       Inr (map (\<lambda>(tx_hash, height). hash_to_hex_str self tx_hash) (rev confirmed_list)))"

text \<open>\<open>asyncio.gather\<close> of two coroutines, unpacked into a pair.\<close>

definition gather2 :: "error + 'a \<Rightarrow> error + 'b \<Rightarrow> error + 'a \<times> 'b" where
  "gather2 a b =
     (case a of Inl e \<Rightarrow> Inl e
      | Inr x \<Rightarrow> (case b of Inl e \<Rightarrow> Inl e | Inr y \<Rightarrow> Inr (x, y)))"

definition get_txid_list :: "('k, 'z) handler_scheme \<Rightarrow> string \<Rightarrow> error + string list" where
  "get_txid_list self addr =
     and_then (address_to_hashX self addr) (\<lambda>hashX.
     and_then (gather2 (get_unconfirmed_list self hashX) (get_confirmed_list self hashX))
       (\<lambda>(unconfirmed_list, confirmed_list). Inr (unconfirmed_list @ confirmed_list)))"

subsection \<open>The batch calls of the daemon\<close>

text \<open>\<open>txid and isinstance(txid, str) and len(txid)==64\<close>; \<open>None\<close> is any value that is no string.\<close>

definition txid_ok :: "string option \<Rightarrow> bool" where
  "txid_ok txid = (case txid of None \<Rightarrow> False | Some s \<Rightarrow> s \<noteq> [] \<and> length s = 64)"

fun check_txid_list :: "string option list \<Rightarrow> error + unit" where
  "check_txid_list [] = Inr ()"
| "check_txid_list (txid # txid_list) =
     (if \<not> txid_ok txid then Inl (Exception ''invalid format of txid as argument'')
      else check_txid_list txid_list)"

definition get_tx_raw_list ::
  "('k, 'z) handler_scheme \<Rightarrow> string option list \<Rightarrow> error + bytes list" where
  "get_tx_raw_list self txid_list =
     and_then (check_txid_list txid_list) (\<lambda>_. daemon_getrawtransactions self txid_list)"

definition get_tx_detail_list ::
  "('k, 'z) handler_scheme \<Rightarrow> string option list \<Rightarrow> error + tx_detail option list" where
  "get_tx_detail_list self txid_list =
     and_then (check_txid_list txid_list) (\<lambda>_. daemon_getdetailedtransactions self txid_list)"

definition get_script_detail_list ::
  "('k, 'z) handler_scheme \<Rightarrow> string list \<Rightarrow> error + script_pub_key option list" where
  "get_script_detail_list self script_list = daemon_decode_scripts self script_list"

subsection \<open>\<open>wallet_unspent\<close>\<close>

record wallet_entry =
  w_address :: string
  w_txid :: string
  w_vout :: int
  w_scriptPubKey :: string
  w_amount :: number
  w_satoshis :: int
  w_height :: int
  w_confirmations :: int

text \<open>
  \<open>item["scriptPubKey"]["addresses"][0] if 'addresses' in item["scriptPubKey"] else ""\<close>
\<close>

definition first_address :: "vout_item \<Rightarrow> error + string" where
  "first_address item =
     (case vout_scriptPubKey item of
        None \<Rightarrow> Inl (KeyError ''scriptPubKey'')
      | Some spk \<Rightarrow>
          (case spk_addresses spk of
             None \<Rightarrow> Inr []
           | Some [] \<Rightarrow> Inl IndexError
           | Some (a # rest) \<Rightarrow> Inr a))"

text \<open>
  The condition of the loop; \<open>n\<close> is \<open>item["n"]\<close>, or \<open>""\<close> (equal to no integer) when
  the key is missing.
\<close>

definition picks :: "string \<Rightarrow> int \<Rightarrow> string \<Rightarrow> int option \<Rightarrow> bool" where
  "picks address vout addr n \<longleftrightarrow> addr = address \<or> (addr = [] \<and> n = Some vout)"

text \<open>The loop over \<open>list_vout\<close> that fills \<open>list_pick\<close>.\<close>

fun pick_outputs :: "string \<Rightarrow> int \<Rightarrow> vout_item list \<Rightarrow> error + vout_item list" where
  "pick_outputs address vout [] = Inr []"
| "pick_outputs address vout (item # list_vout) =
     (case first_address item of
        Inl e \<Rightarrow> Inl e
      | Inr addr \<Rightarrow>
          (case pick_outputs address vout list_vout of
             Inl e \<Rightarrow> Inl e
           | Inr list_pick \<Rightarrow>
               Inr (if picks address vout addr (vout_n item) then item # list_pick
                    else list_pick)))"

definition wallet_unspent :: "string \<Rightarrow> unspent \<Rightarrow> tx_detail \<Rightarrow> error + wallet_entry" where
  "wallet_unspent address utxo tx_detail =
     (let height = u_height utxo; satoshis = u_value utxo; vout = u_tx_pos utxo;
          confirmations = (case td_confirmations tx_detail of Some c \<Rightarrow> c | None \<Rightarrow> 0)
      in case td_vout tx_detail of
           None \<Rightarrow> Inl (KeyError ''vout'')
         | Some list_vout \<Rightarrow>
             and_then (pick_outputs address vout list_vout) (\<lambda>list_pick.
               case list_pick of
                 [] \<Rightarrow>
                   Inl (Exception
                     (''cannot get the transaction's list of outputs from address:'' @ address))
               | obj # rest \<Rightarrow>
                   (case vout_value obj of
                      None \<Rightarrow> Inl (KeyError ''value'')
                    | Some amount \<Rightarrow>
                        (case vout_scriptPubKey obj of
                           None \<Rightarrow> Inl (KeyError ''scriptPubKey'')
                         | Some spk \<Rightarrow>
                             (case spk_hex spk of
                                None \<Rightarrow> Inl (KeyError ''hex'')
                              | Some script_pub_key \<Rightarrow>
                                  (case td_txid tx_detail of
                                     None \<Rightarrow> Inl (KeyError ''txid'')
                                   | Some txid \<Rightarrow>
                                       Inr \<lparr>w_address = address, w_txid = txid, w_vout = vout,
                                            w_scriptPubKey = script_pub_key, w_amount = amount,
                                            w_satoshis = satoshis, w_height = height,
                                            w_confirmations = confirmations\<rparr>))))))"

subsection \<open>\<open>history_factory\<close>\<close>

record vin_entry =
  fin_txid :: "string option"
  fin_addrs :: "string list option"
  fin_value :: rat

record vout_entry =
  fout_addrs :: "string list option"
  fout_value :: "number option"

record history_record =
  hr_txid :: "string option"
  hr_vin :: "vin_entry list"
  hr_vout :: "vout_entry list"
  hr_valueOut :: rat
  hr_valueIn :: rat
  hr_fees :: rat
  hr_confirmations :: int
  hr_time :: int

text \<open>A list comprehension whose element expression may raise.\<close>

fun for_each :: "('a \<Rightarrow> error + 'b) \<Rightarrow> 'a list \<Rightarrow> error + 'b list" where
  "for_each f [] = Inr []"
| "for_each f (x # xs) =
     (case f x of
        Inl e \<Rightarrow> Inl e
      | Inr y \<Rightarrow> (case for_each f xs of Inl e \<Rightarrow> Inl e | Inr ys \<Rightarrow> Inr (y # ys)))"

text \<open>\<open>xs[n]\<close>: a negative index counts from the end, \<open>None\<close> is no index.\<close>

definition py_index :: "'a list \<Rightarrow> int option \<Rightarrow> error + 'a" where
  "py_index xs n =
     (case n of
        None \<Rightarrow> Inl TypeError
      | Some i \<Rightarrow>
          (let len = int (length xs); j = (if i < 0 then len + i else i)
           in if 0 \<le> j \<and> j < len then Inr (xs ! nat j) else Inl IndexError))"

text \<open>\<open>bytes(b).hex()\<close>\<close>

definition hex_digit :: "nat \<Rightarrow> char" where
  "hex_digit d = ''0123456789abcdef'' ! (d mod 16)"

definition bytes_hex :: "bytes \<Rightarrow> string" where
  "bytes_hex b = concat (map (\<lambda>c. [hex_digit (of_char c div 16), hex_digit (of_char c)]) b)"

text \<open>
  Lines 165 to 179. On the branch of an unconfirmed transaction \<open>tx_time\<close> is assigned
  only under \<open>if memtx:\<close>, and nowhere before; the test \<open>tx_time is None\<close> that follows
  reads it.
\<close>

definition get_transaction_time :: "('k, 'z) handler_scheme \<Rightarrow> tx_detail \<Rightarrow> error + int" where
  "get_transaction_time self tx_detail =
     (if td_confirmations tx_detail \<noteq> None then
        (case td_time tx_detail of
           None \<Rightarrow> Inl (Exception ''cannot get the transaction time'')
         | Some tx_time \<Rightarrow> Inr tx_time)
      else
        (case mempool_detail self (td_txid tx_detail) of
           None \<Rightarrow> Inl (UnboundLocalError ''tx_time'')
         | Some memtx \<Rightarrow>
             (case mt_time memtx of
                None \<Rightarrow> Inl (Exception ''cannot get the transaction time'')
              | Some tx_time \<Rightarrow> Inr tx_time)))"

text \<open>The two loops that keep the entries with a truthy address list.\<close>

fun final_vin :: "(string option \<times> string list option \<times> rat) list \<Rightarrow> vin_entry list" where
  "final_vin [] = []"
| "final_vin ((txid, addrs, v) # rest) =
     (if truthy addrs then \<lparr>fin_txid = txid, fin_addrs = addrs, fin_value = v\<rparr> # final_vin rest
      else final_vin rest)"

fun final_vout :: "(string list option \<times> number option) list \<Rightarrow> vout_entry list" where
  "final_vout [] = []"
| "final_vout ((addrs, v) # rest) =
     (if truthy addrs then \<lparr>fout_addrs = addrs, fout_value = v\<rparr> # final_vout rest
      else final_vout rest)"

text \<open>\<open>round(Decimal(reduce(lambda sum, x: sum + x["value"], xs, 0)), self.prec)\<close>\<close>

definition total_value :: "int \<Rightarrow> number option list \<Rightarrow> error + rat" where
  "total_value P values =
     and_then (reduce_sum (AInt 0) values) (\<lambda>acc. round_decimal P (accumulated acc))"

text \<open>
  The closure \<open>process_single_tx_record\<close>. Its argument is \<open>None\<close> for a detail that is
  \<open>None\<close> or an empty dictionary, which \<open>not tx_detail\<close> rejects.
\<close>

definition process_single_tx_record ::
  "('k, 'z) handler_scheme \<Rightarrow> tx_detail option \<Rightarrow> error + history_record" where
  "process_single_tx_record self tx_detail_opt =
     (case tx_detail_opt of
        None \<Rightarrow> Inl (Exception ''missing transaction detail'')
      | Some tx_detail \<Rightarrow>
     and_then (get_transaction_time self tx_detail) (\<lambda>tx_time.
     and_then (case td_vin tx_detail of None \<Rightarrow> Inl TypeError | Some vin \<Rightarrow> Inr vin) (\<lambda>vin.
     let vin_txid_list = map vin_txid vin; vin_idx_list = map vin_vout vin in
     and_then (get_tx_raw_list self vin_txid_list) (\<lambda>vin_raw_list.
     and_then (for_each (coin_DESERIALIZER self) vin_raw_list) (\<lambda>vin_tx_list.
     and_then (for_each (\<lambda>(t, n). py_index (outputs t) n) (zip vin_tx_list vin_idx_list))
       (\<lambda>prev_out_list.
     and_then (for_each (\<lambda>out. py_truediv (txo_value out) (coin_VALUE_PER_COIN self))
                 prev_out_list) (\<lambda>prev_out_value_list.
     let prev_out_script_list = map (\<lambda>out. bytes_hex (pk_script out)) prev_out_list in
     and_then (get_script_detail_list self prev_out_script_list) (\<lambda>script_detail_list.
     let vin_addrs_list = get_addrs_from_script_list script_detail_list;
         final_vin_list = final_vin (zip vin_txid_list (zip vin_addrs_list prev_out_value_list)) in
     and_then (case td_vout tx_detail of None \<Rightarrow> Inl TypeError | Some vout \<Rightarrow> Inr vout) (\<lambda>vout.
     let vout_value_list = map vout_value vout;
         vout_script_list = map vout_scriptPubKey vout;
         vout_addrs_list = get_addrs_from_script_list vout_script_list;
         final_vout_list = final_vout (zip vout_addrs_list vout_value_list) in
     and_then (total_value (prec self) (map (\<lambda>x. Some (PyFloat (fin_value x))) final_vin_list))
       (\<lambda>value_in.
     and_then (total_value (prec self) (map fout_value final_vout_list)) (\<lambda>value_out.
     and_then (round_decimal (prec self) (Some (value_in - value_out))) (\<lambda>fees.
       Inr \<lparr>hr_txid = td_txid tx_detail, hr_vin = final_vin_list, hr_vout = final_vout_list,
            hr_valueOut = value_out, hr_valueIn = value_in, hr_fees = fees,
            hr_confirmations = (case td_confirmations tx_detail of Some c \<Rightarrow> c | None \<Rightarrow> 0),
            hr_time = tx_time\<rparr>))))))))))))"

definition history_factory ::
  "('k, 'z) handler_scheme \<Rightarrow> tx_detail option list \<Rightarrow> error + history_record list" where
  "history_factory self tx_detail_list =
     gather (map (process_single_tx_record self) tx_detail_list)"

subsection \<open>\<open>history\<close>\<close>

text \<open>\<open>s.split(',')\<close>\<close>

fun split :: "char \<Rightarrow> string \<Rightarrow> string list" where
  "split sep [] = [[]]"
| "split sep (c # s) =
     (if c = sep then [] # split sep s
      else case split sep s of [] \<Rightarrow> [[c]] | w # ws \<Rightarrow> (c # w) # ws)"

text \<open>\<open>xs[i:j]\<close> for the bounds that passed the pagination checks (\<open>0 \<le> i \<le> j\<close>).\<close>

definition slice :: "'a list \<Rightarrow> int \<Rightarrow> int \<Rightarrow> 'a list" where
  "slice xs i j = drop (nat i) (take (nat j) xs)"

text \<open>
  The closure \<open>get_single_address_history\<close>. \<open>history.sort(key=..., reverse=True)\<close> is
  stable: records of equal time keep their order.
\<close>

definition get_single_address_history ::
  "('k, 'z) handler_scheme \<Rightarrow> int \<Rightarrow> int \<Rightarrow> string \<Rightarrow> error + string \<times> history_record list" where
  "get_single_address_history self query_from query_to addr =
     and_then (get_txid_list self addr) (\<lambda>txid_list.
     and_then (get_tx_detail_list self (map Some (slice txid_list query_from query_to)))
       (\<lambda>tx_detail_list.
     and_then (history_factory self tx_detail_list) (\<lambda>history.
       Inr (addr, sort_key (\<lambda>t. - hr_time t) history))))"

text \<open>
  \<open>history\<close>, from the path variable and the parsed query values on. The result is the
  response returned (\<open>Inr\<close>) or the exception raised (\<open>Inl\<close>); a JSON response carries
  the per-address results as they are before their encoding.
\<close>

definition history ::
  "('k, 'z) handler_scheme \<Rightarrow> string option \<Rightarrow> int \<Rightarrow> int \<Rightarrow>
     error + (string \<times> history_record list) list response" where
  "history self addrs query_from query_to =
     (case addrs of
        None \<Rightarrow> Inr (Response 404 [])
      | Some a \<Rightarrow>
          (case check_pagination query_from query_to of
             Inl msg \<Rightarrow> Inr (Response 400 msg)
           | Inr (from', to') \<Rightarrow>
               and_then
                 (gather (map (get_single_address_history self from' to') (split CHR '','' a)))
                 (\<lambda>results. Inr (JsonResponse results))))"

subsection \<open>Notions used to state the properties\<close>

text \<open>
  The block heights of the confirmed transactions, in the order in which
  \<open>get_confirmed_list\<close> lists their ids.
\<close>

definition heights_in_order :: "(bytes \<times> int) list \<Rightarrow> int list" where
  "heights_in_order confirmed_list = map snd (rev confirmed_list)"

text \<open>The condition under which the loop of \<open>wallet_unspent\<close> appends an output.\<close>

definition selected :: "string \<Rightarrow> int \<Rightarrow> vout_item \<Rightarrow> bool" where
  "selected address vout item =
     (case first_address item of
        Inl e \<Rightarrow> False
      | Inr addr \<Rightarrow> picks address vout addr (vout_n item))"


text \<open>A hexadecimal digit, as the specification asks of every character of a txid.\<close>

definition hex_char :: "char \<Rightarrow> bool" where
  "hex_char c \<longleftrightarrow> c \<in> set ''0123456789abcdefABCDEF''"

subsection \<open>Example data\<close>

text \<open>
  A handler over a small chain, on which the properties are evaluated. A txid is a
  character repeated 64 times; the raw form of a transaction is its txid, and the lookup
  key of an address is the address.
\<close>

definition txid_of :: "char \<Rightarrow> string" where
  "txid_of c = replicate 64 c"

definition demo_tx :: "string \<Rightarrow> tx_detail" where
  "demo_tx t =
     \<lparr>td_txid = Some t,
      td_confirmations = (if hd t \<in> set ''a9'' then None else Some 3),
      td_time = (if hd t \<in> set ''a9'' then None else Some 1600000000),
      td_vin = Some [\<lparr>vin_txid = Some (txid_of (if hd t = CHR ''b'' then CHR ''e''
                         else if hd t = CHR ''f'' then CHR ''d'' else CHR ''c'')),
                      vin_vout = Some 0\<rparr>],
      td_vout = Some [\<lparr>vout_value = Some (PyFloat (if hd t = CHR ''f''
                          then 9007199254727573 / 134217728
                          else 4503149267407759 / 4503599627370496)),
                       vout_scriptPubKey = Some \<lparr>spk_addresses = Some [''addrB''],
                          spk_type = Some ''pubkeyhash'', spk_segwit = None,
                          spk_hex = Some ''76a914''\<rparr>,
                       vout_n = Some 0\<rparr>]\<rparr>"

text \<open>
  The logarithm of the C library at the doubles 10, 100000000, 1000000 and 2, as glibc
  returns it.
\<close>

definition demo_m_log :: "rat \<Rightarrow> rat" where
  "demo_m_log x =
     (if x = 10 then 2592480341699211 / 1125899906842624
      else if x = 100000000 then 2592480341699211 / 140737488355328
      else if x = 1000000 then 243045032034301 / 17592186044416
      else if x = 2 then 6243314768165359 / 9007199254740992
      else 0)"

definition demo :: "int handler" where
  "demo =
     \<lparr>coin_address_to_hashX = (\<lambda>a. if a = [] then None else Some a),
      coin_VALUE_PER_COIN = 100000000,
      coin_DESERIALIZER = (\<lambda>raw. Inr \<lparr>outputs =
         [\<lparr>txo_value = (if hd raw = CHR ''d'' then 6710886400000002 else 100000000),
           pk_script = (if hd raw = CHR ''e'' then ''X'' else ''S'')\<rparr>]\<rparr>),
      prec = 8,
      hash_to_hex_str = (\<lambda>h. h),
      utxo_order = tx_num,
      db_all_utxos = (\<lambda>k. Inr
         [\<lparr>tx_num = 9, tx_pos = 1, tx_hash = txid_of CHR ''2'', height = 90, utxo_value = 700\<rparr>,
          \<lparr>tx_num = 4, tx_pos = 0, tx_hash = txid_of CHR ''1'', height = 40, utxo_value = 500\<rparr>]),
      mempool_unordered_UTXOs = (\<lambda>k. Inr
         [\<lparr>tx_num = - 1, tx_pos = 0, tx_hash = txid_of CHR ''a'', height = 0, utxo_value = 300\<rparr>]),
      mempool_potential_spends = (\<lambda>k. Inr {(txid_of CHR ''1'', 0)}),
      mempool_transaction_summaries = (\<lambda>k.
         if k = ''addrA'' then Inr [\<lparr>summary_hash = txid_of CHR ''a''\<rparr>] else Inr []),
      mempool_detail = (\<lambda>t.
         if t = Some (txid_of CHR ''a'') then Some \<lparr>mt_time = Some 1700000000\<rparr> else None),
      session_mgr_history = (\<lambda>k.
         if k = ''addrA'' then Inr [(txid_of CHR ''5'', 50), (txid_of CHR ''1'', 100)]
         else if k = ''addrB'' then Inr [(txid_of CHR ''b'', 7)]
         else Inr [(txid_of CHR ''6'', 7), (txid_of CHR ''7'', 7)]),
      daemon_getrawtransactions = (\<lambda>l. Inr (map (\<lambda>t. case t of None \<Rightarrow> [] | Some s \<Rightarrow> s) l)),
      daemon_getdetailedtransactions = (\<lambda>l. Inr (map (map_option demo_tx) l)),
      daemon_decode_scripts = (\<lambda>l.
         if ''58'' \<in> set l then Inl (UpstreamFailure ''decode_scripts'')
         else Inr (map (\<lambda>s. Some \<lparr>spk_addresses = Some [''addrA''],
                 spk_type = Some ''pubkeyhash'', spk_segwit = None, spk_hex = Some s\<rparr>) l))\<rparr>"

text \<open>
  The outputs of a transaction that pays the same address twice and carries a data
  output, the transaction, and an unspent entry of it.
\<close>

definition two_outputs :: "vout_item list" where
  "two_outputs =
     [\<lparr>vout_value = Some (PyFloat (1 / 2)),
       vout_scriptPubKey = Some \<lparr>spk_addresses = Some [''addrA''],
          spk_type = Some ''pubkeyhash'', spk_segwit = None, spk_hex = Some ''76a914''\<rparr>,
       vout_n = Some 0\<rparr>,
      \<lparr>vout_value = Some (PyFloat (1 / 4)),
       vout_scriptPubKey = Some \<lparr>spk_addresses = Some [''addrA''],
          spk_type = Some ''pubkeyhash'', spk_segwit = None, spk_hex = Some ''76a914''\<rparr>,
       vout_n = Some 1\<rparr>,
      \<lparr>vout_value = Some (PyFloat 0),
       vout_scriptPubKey = Some \<lparr>spk_addresses = None,
          spk_type = Some ''nulldata'', spk_segwit = None, spk_hex = Some ''6a''\<rparr>,
       vout_n = Some 2\<rparr>]"

definition two_outputs_tx :: tx_detail where
  "two_outputs_tx =
     \<lparr>td_txid = Some (txid_of CHR ''2''), td_confirmations = Some 3,
      td_time = Some 1600000000, td_vin = Some [], td_vout = Some two_outputs\<rparr>"

definition demo_unspent :: "int \<Rightarrow> int \<Rightarrow> unspent" where
  "demo_unspent pos minor =
     \<lparr>u_tx_hash = txid_of CHR ''2'', u_tx_pos = pos, u_height = 90, u_value = minor\<rparr>"

section \<open>Properties\<close>

subsection \<open>Helper facts\<close>

lemma and_then_Inr [simp]: "and_then (Inr x) f = f x"
  by (simp add: and_then_def)

lemma and_then_Inl [simp]: "and_then (Inl e) f = Inl e"
  by (simp add: and_then_def)

lemma get_addrs_from_script_list_map:
  "get_addrs_from_script_list script_list = map get_addrs_from_script script_list"
  by (induction script_list) simp_all


lemma round_half_even_of_int [simp]: "round_half_even (of_int n) = n"
  by (simp add: round_half_even_def)

lemma pow10_nonzero [simp]: "pow10 P \<noteq> 0"
  by (simp add: pow10_def)









lemma pick_outputs_filter:
  assumes "\<forall>item \<in> set list_vout. \<not> isl (first_address item)"
  shows "pick_outputs address vout list_vout = Inr (filter (selected address vout) list_vout)"
  using assms
  by (induction list_vout) (auto simp: selected_def split: sum.splits)

lemma pick_outputs_error:
  assumes "item \<in> set list_vout" and "isl (first_address item)"
  shows "isl (pick_outputs address vout list_vout)"
  using assms
  by (induction list_vout) (auto split: sum.splits)

lemma check_txid_list_ok:
  "check_txid_list txid_list = Inr () \<longleftrightarrow> (\<forall>txid \<in> set txid_list. txid_ok txid)"
  by (induction txid_list) auto

lemma check_txid_list_bad:
  "check_txid_list txid_list \<noteq> Inr () \<longleftrightarrow>
     check_txid_list txid_list = Inl (Exception ''invalid format of txid as argument'')"
  by (induction txid_list) auto

subsection \<open>Pagination\<close>

text \<open>
  C6. The pagination checks reject exactly when \<open>from < 0\<close>, \<open>to < 0\<close> or \<open>from > to\<close>;
  otherwise the window is \<open>(from, min to (from + MAX_TX_QUERY))\<close>. A rejected request
  gets the same 400 response whatever the collaborators are, so none of them is asked.
  \<open>(10, 5)\<close> and \<open>(-1, 5)\<close> are rejected and \<open>(0, 200)\<close> is clamped to \<open>(0, 50)\<close>.
\<close>

theorem pagination_clamp:
  "(isl (check_pagination f t) \<longleftrightarrow> f < 0 \<or> t < 0 \<or> f > t) \<and>
   (\<not> (f < 0 \<or> t < 0 \<or> f > t) \<longrightarrow>
      check_pagination f t = Inr (f, min t (f + MAX_TX_QUERY))) \<and>
   (f < 0 \<or> t < 0 \<or> f > t \<longrightarrow>
      (\<exists>msg. \<forall>self :: ('k, 'z) handler_scheme.
         history self (Some a) f t = Inr (Response 400 msg))) \<and>
   isl (check_pagination 10 5) \<and> isl (check_pagination (- 1) 5) \<and>
   check_pagination 0 200 = Inr (0, 50)"
  by (simp add: check_pagination_def history_def MAX_TX_QUERY_def min_def)

theorem pagination_clamp_witness:
  "check_pagination 3 200 = Inr (3, 53) \<and>
   (\<exists>msg. \<forall>self :: (int, unit) handler_scheme.
      history self (Some ''a,b'') 10 5 = Inr (Response 400 msg))"
  using pagination_clamp [of 3 200]
    pagination_clamp [of 10 5 "''a,b''", where ?'k = int and ?'z = unit]
  by (simp add: MAX_TX_QUERY_def)

subsection \<open>Addresses of a decoded script\<close>

text \<open>
  C9. For a decoded script of type \<open>nonstandard\<close> whose \<open>segwit\<close> entry has a non-empty
  address list, \<open>get_addrs_from_script_list\<close> returns that segwit list at the script's
  position, and not \<open>None\<close>. A script that is classified nonstandard has no address list
  of its own (section 3 of the specification: it maps to no destination); that is the
  third hypothesis.
\<close>

theorem nonstandard_segwit_addresses:
  assumes "i < length script_list" and "script_list ! i = Some d"
    and "\<not> truthy (spk_addresses d)"
    and "spk_type d = Some ''nonstandard''"
    and "spk_segwit d = Some sw" and "sw_addresses sw = Some addrs" and "addrs \<noteq> []"
  shows "get_addrs_from_script_list script_list ! i = Some addrs"
proof -
  from \<open>addrs \<noteq> []\<close> have "truthy (Some addrs)" by (cases addrs) simp_all
  with assms show ?thesis
    by (simp add: get_addrs_from_script_list_map get_addrs_from_script_def)
qed

theorem nonstandard_segwit_addresses_witness:
  "get_addrs_from_script_list
     [None,
      Some \<lparr>spk_addresses = None, spk_type = Some ''nonstandard'',
            spk_segwit = Some \<lparr>sw_addresses = Some [''bc1qexample'']\<rparr>, spk_hex = None\<rparr>] ! 1
   = Some [''bc1qexample'']"
  using nonstandard_segwit_addresses [of 1
     "[None, Some \<lparr>spk_addresses = None, spk_type = Some ''nonstandard'',
            spk_segwit = Some \<lparr>sw_addresses = Some [''bc1qexample'']\<rparr>, spk_hex = None\<rparr>]"
     "\<lparr>spk_addresses = None, spk_type = Some ''nonstandard'',
            spk_segwit = Some \<lparr>sw_addresses = Some [''bc1qexample'']\<rparr>, spk_hex = None\<rparr>"
     "\<lparr>sw_addresses = Some [''bc1qexample'']\<rparr>" "[''bc1qexample'']"]
  by simp

subsection \<open>The order of the collected transaction ids\<close>

text \<open>
  C3, as amended. For an address that resolves to a lookup key, \<open>get_txid_list\<close>
  returns the pending ids in the order of the mempool, followed by the confirmed ids in
  the reverse of the order of \<open>session_mgr.history\<close>. The code does not sort: the
  heights of the confirmed part are non-increasing when the history is given with
  non-decreasing heights, and strictly decreasing when it is given strictly increasing.
\<close>

theorem txid_list_order:
  assumes "coin_address_to_hashX self addr = Some hashX"
    and "mempool_transaction_summaries self hashX = Inr pending"
    and "session_mgr_history self hashX = Inr confirmed"
  shows "get_txid_list self addr =
           Inr (map (\<lambda>t. hash_to_hex_str self (summary_hash t)) pending @
                map (\<lambda>p. hash_to_hex_str self (fst p)) (rev confirmed)) \<and>
         (sorted (map snd confirmed) \<longrightarrow> sorted_wrt (\<ge>) (heights_in_order confirmed)) \<and>
         (sorted_wrt (<) (map snd confirmed) \<longrightarrow> sorted_wrt (>) (heights_in_order confirmed))"
proof -
  have "get_txid_list self addr =
           Inr (map (\<lambda>t. hash_to_hex_str self (summary_hash t)) pending @
                map (\<lambda>p. hash_to_hex_str self (fst p)) (rev confirmed))"
    using assms
    by (simp add: get_txid_list_def address_to_hashX_def get_unconfirmed_list_def
        get_confirmed_list_def gather2_def case_prod_unfold)
  moreover have "sorted (map snd confirmed) \<longrightarrow> sorted_wrt (\<ge>) (heights_in_order confirmed)"
    by (simp add: heights_in_order_def rev_map [symmetric] sorted_wrt_rev)
  moreover have "sorted_wrt (<) (map snd confirmed) \<longrightarrow> sorted_wrt (>) (heights_in_order confirmed)"
    by (simp add: heights_in_order_def rev_map [symmetric] sorted_wrt_rev)
  ultimately show ?thesis by blast
qed

subsection \<open>Validation of a batch of ids\<close>

text \<open>
  C8. The two batch calls test the length and the type of each id, and not its
  characters: a list holding the 64-character id \<open>zz...z\<close>, which has no hexadecimal
  digit, passes the loop, and the result is whatever the daemon answers to the request.
\<close>

theorem batch_accepts_non_hex:
  "\<not> hex_char CHR ''z'' \<and>
   get_tx_raw_list self [Some (replicate 64 CHR ''z'')] =
     daemon_getrawtransactions self [Some (replicate 64 CHR ''z'')] \<and>
   get_tx_detail_list self [Some (replicate 64 CHR ''z'')] =
     daemon_getdetailedtransactions self [Some (replicate 64 CHR ''z'')]"
  by (simp add: get_tx_raw_list_def get_tx_detail_list_def txid_ok_def hex_char_def)

subsection \<open>The time of a record\<close>

text \<open>
  C2. For a transaction detail without a confirmation count whose txid has no entry in
  the mempool snapshot, the record build raises \<open>UnboundLocalError\<close> for \<open>tx_time\<close>: the
  test that would raise \<open>cannot get the transaction time\<close> reads a variable that was
  never assigned.
\<close>

theorem unconfirmed_without_snapshot_entry:
  assumes "td_confirmations tx_detail = None"
    and "mempool_detail self (td_txid tx_detail) = None"
  shows "process_single_tx_record self (Some tx_detail) = Inl (UnboundLocalError ''tx_time'')"
  using assms by (simp add: process_single_tx_record_def get_transaction_time_def)

text \<open>A detail with a confirmation count takes its own time; the snapshot is not read.\<close>

lemma confirmed_uses_block_time:
  assumes "td_confirmations tx_detail = Some c"
  shows "get_transaction_time self tx_detail =
     (case td_time tx_detail of None \<Rightarrow> Inl (Exception ''cannot get the transaction time'')
        | Some t \<Rightarrow> Inr t)"
  using assms by (simp add: get_transaction_time_def)


subsection \<open>Enrichment of an unspent entry\<close>

text \<open>
  What the loop keeps. When every output of the owning transaction can be read, the
  loop of \<open>wallet_unspent\<close> keeps exactly the outputs whose first address is the
  requested address, together with the outputs that carry no address (or an empty first
  address) and whose index \<open>n\<close> is the utxo's \<open>tx_pos\<close>; when it keeps none, the call
  raises \<open>cannot get the transaction's list of outputs from address:...\<close>.
\<close>

lemma unspent_selection:
  assumes "td_vout tx_detail = Some list_vout"
    and "\<forall>item \<in> set list_vout. \<not> isl (first_address item)"
  shows "pick_outputs address (u_tx_pos utxo) list_vout =
           Inr (filter (selected address (u_tx_pos utxo)) list_vout) \<and>
         (\<forall>item \<in> set list_vout.
            selected address (u_tx_pos utxo) item \<longleftrightarrow>
              (case vout_scriptPubKey item of
                 None \<Rightarrow> False
               | Some spk \<Rightarrow>
                   (case spk_addresses spk of
                      None \<Rightarrow> address = [] \<or> vout_n item = Some (u_tx_pos utxo)
                    | Some addrs \<Rightarrow>
                        hd addrs = address \<or> (hd addrs = [] \<and> vout_n item = Some (u_tx_pos utxo))))) \<and>
         (filter (selected address (u_tx_pos utxo)) list_vout = [] \<longrightarrow>
            wallet_unspent address utxo tx_detail =
              Inl (Exception
                (''cannot get the transaction's list of outputs from address:'' @ address)))"
proof -
  have a: "pick_outputs address (u_tx_pos utxo) list_vout =
           Inr (filter (selected address (u_tx_pos utxo)) list_vout)"
    using assms(2) by (rule pick_outputs_filter)
  have b: "selected address (u_tx_pos utxo) item \<longleftrightarrow>
              (case vout_scriptPubKey item of
                 None \<Rightarrow> False
               | Some spk \<Rightarrow>
                   (case spk_addresses spk of
                      None \<Rightarrow> address = [] \<or> vout_n item = Some (u_tx_pos utxo)
                    | Some addrs \<Rightarrow>
                        hd addrs = address \<or> (hd addrs = [] \<and> vout_n item = Some (u_tx_pos utxo))))"
    if "item \<in> set list_vout" for item
    using assms(2) that
    by (auto simp: selected_def first_address_def picks_def split: option.splits list.splits)
  have c: "wallet_unspent address utxo tx_detail =
              Inl (Exception
                (''cannot get the transaction's list of outputs from address:'' @ address))"
    if "filter (selected address (u_tx_pos utxo)) list_vout = []"
    using assms(1) a that by (simp add: wallet_unspent_def)
  from a b c show ?thesis by blast
qed

text \<open>
  C7. The condition of the loop tests the address before the index, and the entry is
  built from the first output it keeps, so an exact match on the index is not
  preferred: for the utxo at index 1 (25000000 minor units) of a transaction that pays
  the address at its outputs 0 and 1, \<open>wallet_unspent\<close> returns an entry with
  \<open>vout = 1\<close> and \<open>satoshis = 25000000\<close> whose amount is the 0.5 of output 0.
\<close>

theorem unspent_entry_mismatch:
  "wallet_unspent ''addrA'' (demo_unspent 1 25000000) two_outputs_tx =
   Inr \<lparr>w_address = ''addrA'', w_txid = txid_of CHR ''2'', w_vout = 1,
        w_scriptPubKey = ''76a914'', w_amount = PyFloat (1 / 2), w_satoshis = 25000000,
        w_height = 90, w_confirmations = 3\<rparr> \<and>
   vout_n (two_outputs ! 1) = Some 1 \<and>
   vout_value (two_outputs ! 1) = Some (PyFloat (1 / 4)) \<and>
   vout_n (two_outputs ! 0) = Some 0 \<and>
   vout_value (two_outputs ! 0) = Some (PyFloat (1 / 2))"
  by (simp add: wallet_unspent_def two_outputs_tx_def two_outputs_def demo_unspent_def
      first_address_def picks_def)

text \<open>
  C10. When the loop keeps at least one output, the amount and the script of the entry
  are those of the first kept output in the order of \<open>vout\<close>.
\<close>

theorem unspent_first_match:
  assumes "td_vout tx_detail = Some list_vout"
    and "\<forall>item \<in> set list_vout. \<not> isl (first_address item)"
    and "filter (selected address (u_tx_pos utxo)) list_vout = obj # rest"
    and "vout_value obj = Some amount"
    and "vout_scriptPubKey obj = Some spk" and "spk_hex spk = Some script_hex"
    and "td_txid tx_detail = Some txid"
  shows "wallet_unspent address utxo tx_detail =
           Inr \<lparr>w_address = address, w_txid = txid, w_vout = u_tx_pos utxo,
                w_scriptPubKey = script_hex, w_amount = amount,
                w_satoshis = u_value utxo, w_height = u_height utxo,
                w_confirmations = (case td_confirmations tx_detail of Some c \<Rightarrow> c | None \<Rightarrow> 0)\<rparr>"
proof -
  have "pick_outputs address (u_tx_pos utxo) list_vout = Inr (obj # rest)"
    using pick_outputs_filter [OF assms(2)] assms(3) by simp
  with assms show ?thesis
    by (simp add: wallet_unspent_def)
qed


subsection \<open>The totals of a record\<close>



subsection \<open>The unspent listing\<close>

text \<open>
  C5. When the three collaborators answer, \<open>hashX_listunspent\<close> returns a list in which
  every entry is built from a stored or mempool utxo whose \<open>(tx_hash, tx_pos)\<close> is not in
  the pending-spend set; as \<open>hash_to_hex_str\<close> is injective, no entry has the hex txid
  and the index of a pair of that set.
\<close>

theorem listunspent_excludes_spends:
  assumes "db_all_utxos self hashX = Inr stored"
    and "mempool_unordered_UTXOs self hashX = Inr unordered"
    and "mempool_potential_spends self hashX = Inr spends"
  shows "\<exists>res. hashX_listunspent self hashX = Inr res \<and>
           (\<forall>e \<in> set res. \<exists>u \<in> set stored \<union> set unordered.
               e = utxo_dict self u \<and> (tx_hash u, tx_pos u) \<notin> spends) \<and>
           (inj (hash_to_hex_str self) \<longrightarrow>
              (\<forall>e \<in> set res. \<forall>(t, p) \<in> spends.
                 \<not> (u_tx_hash e = hash_to_hex_str self t \<and> u_tx_pos e = p)))"
  using assms
  by (auto simp: hashX_listunspent_def utxo_dict_def dest: injD)

subsection \<open>A failure anywhere fails the whole request\<close>

lemma gather_isl: "x \<in> set xs \<Longrightarrow> isl x \<Longrightarrow> isl (gather xs)"
proof (induction xs)
  case Nil
  then show ?case by simp
next
  case (Cons y ys)
  show ?case
  proof (cases y)
    case (Inl e)
    then show ?thesis by simp
  next
    case (Inr v)
    with Cons have "isl (gather ys)" by auto
    with Inr show ?thesis by (cases "gather ys") simp_all
  qed
qed

lemma and_then_isl: "isl m \<Longrightarrow> isl (and_then m f)"
  by (cases m) simp_all

text \<open>
  C4. Once the pagination is accepted, \<open>history\<close> raises as soon as the pipeline of one
  of the requested addresses raises, and that pipeline raises as soon as the build of one
  record of its window raises: no per-address result is returned for any address.
\<close>

theorem history_fails_as_a_whole:
  assumes "check_pagination query_from query_to = Inr (f, t)"
    and "addr \<in> set (split CHR '','' addrs)"
  shows "(isl (get_single_address_history self f t addr) \<longrightarrow>
            (\<exists>e. history self (Some addrs) query_from query_to = Inl e)) \<and>
         (\<forall>txid_list tx_detail_list tx_detail.
            get_txid_list self addr = Inr txid_list \<and>
            get_tx_detail_list self (map Some (slice txid_list f t)) = Inr tx_detail_list \<and>
            tx_detail \<in> set tx_detail_list \<and>
            isl (process_single_tx_record self tx_detail) \<longrightarrow>
            (\<exists>e. history self (Some addrs) query_from query_to = Inl e))"
proof -
  have a: "\<exists>e. history self (Some addrs) query_from query_to = Inl e"
    if "isl (get_single_address_history self f t addr)"
  proof -
    have "isl (gather (map (get_single_address_history self f t) (split CHR '','' addrs)))"
      using assms(2) that by (intro gather_isl [of "get_single_address_history self f t addr"]) auto
    then have "isl (history self (Some addrs) query_from query_to)"
      using assms(1) by (simp add: history_def and_then_isl)
    then show ?thesis by (cases "history self (Some addrs) query_from query_to") simp_all
  qed
  have b: "isl (get_single_address_history self f t addr)"
    if "get_txid_list self addr = Inr txid_list"
      and "get_tx_detail_list self (map Some (slice txid_list f t)) = Inr tx_detail_list"
      and "tx_detail \<in> set tx_detail_list"
      and "isl (process_single_tx_record self tx_detail)"
    for txid_list tx_detail_list tx_detail
  proof -
    have "isl (history_factory self tx_detail_list)"
      unfolding history_factory_def
      using that(3,4) by (intro gather_isl [of "process_single_tx_record self tx_detail"]) auto
    then show ?thesis
      using that(1,2) by (simp add: get_single_address_history_def and_then_isl)
  qed
  from a b show ?thesis by blast
qed

section \<open>The properties on the example data\<close>

subsection \<open>Evaluation of the example handler\<close>

lemma txid_of_simps [simp]:
  "length (txid_of c) = 64" "txid_of c \<noteq> []" "hd (txid_of c) = c"
  "txid_of c = txid_of d \<longleftrightarrow> c = d"
  by (simp_all add: txid_of_def)

lemma demo_fields [simp]:
  "coin_address_to_hashX demo a = (if a = [] then None else Some a)"
  "coin_VALUE_PER_COIN demo = 100000000"
  "coin_DESERIALIZER demo raw = Inr \<lparr>outputs =
         [\<lparr>txo_value = (if hd raw = CHR ''d'' then 6710886400000002 else 100000000),
           pk_script = (if hd raw = CHR ''e'' then ''X'' else ''S'')\<rparr>]\<rparr>"
  "prec demo = 8"
  "hash_to_hex_str demo h = h"
  "mempool_transaction_summaries demo k =
     (if k = ''addrA'' then Inr [\<lparr>summary_hash = txid_of CHR ''a''\<rparr>] else Inr [])"
  "mempool_detail demo t =
     (if t = Some (txid_of CHR ''a'') then Some \<lparr>mt_time = Some 1700000000\<rparr> else None)"
  "session_mgr_history demo k =
     (if k = ''addrA'' then Inr [(txid_of CHR ''5'', 50), (txid_of CHR ''1'', 100)]
         else if k = ''addrB'' then Inr [(txid_of CHR ''b'', 7)]
         else Inr [(txid_of CHR ''6'', 7), (txid_of CHR ''7'', 7)])"
  "daemon_getrawtransactions demo l = Inr (map (\<lambda>t. case t of None \<Rightarrow> [] | Some s \<Rightarrow> s) l)"
  "daemon_getdetailedtransactions demo l = Inr (map (map_option demo_tx) l)"
  "daemon_decode_scripts demo sl =
     (if ''58'' \<in> set sl then Inl (UpstreamFailure ''decode_scripts'')
         else Inr (map (\<lambda>s. Some \<lparr>spk_addresses = Some [''addrA''],
                 spk_type = Some ''pubkeyhash'', spk_segwit = None, spk_hex = Some s\<rparr>) sl))"
  by (simp_all add: demo_def)

lemma bytes_hex_examples [simp]: "bytes_hex ''X'' = ''58''" "bytes_hex ''S'' = ''53''"
  by (simp_all add: bytes_hex_def hex_digit_def)

lemma demo_quotients [simp]:
  "py_truediv 100000000 100000000 = Inr 1"
  "py_truediv 6710886400000002 100000000 = Inr (4503599627370497 / 67108864)"
  by code_simp+

lemma demo_totals [simp]:
  "total_value 8 [Some (PyFloat 1)] = Inr 1"
  "total_value 8 [Some (PyFloat (4503149267407759 / 4503599627370496))] = Inr (9999 / 10000)"
  "total_value 8 [Some (PyFloat (4503599627370497 / 67108864))] =
     Inr (6710886400000001 / 100000000)"
  "total_value 8 [Some (PyFloat (9007199254727573 / 134217728))] =
     Inr (6710886399990002 / 100000000)"
  by code_simp+



text \<open>With these logarithms the quotient for 1000000 falls below 6, and \<open>int\<close> gives 5.\<close>

lemma demo_prec_truncated: "and_then (math_log demo_m_log 1000000 10) py_int = Inr 5"
  by code_simp

lemma demo_roundings [simp]:
  "round_decimal 8 (Some (1 / 10000)) = Inr (1 / 10000)"
  "round_decimal 8 (Some (9999 / 100000000)) = Inr (9999 / 100000000)"
  by code_simp+

lemma demo_record_b:
  "process_single_tx_record demo (Some (demo_tx (txid_of CHR ''b''))) =
     Inl (UpstreamFailure ''decode_scripts'')"
  by (simp add: process_single_tx_record_def demo_tx_def
      get_transaction_time_def get_tx_raw_list_def txid_ok_def py_index_def
      get_script_detail_list_def)




lemma demo_split: "split CHR '','' ''addrA,addrB,addrC'' = [''addrA'', ''addrB'', ''addrC'']"
  by simp

lemma demo_txid_list_b: "get_txid_list demo ''addrB'' = Inr [txid_of CHR ''b'']"
  by (simp add: get_txid_list_def address_to_hashX_def get_unconfirmed_list_def
      get_confirmed_list_def gather2_def)

lemma demo_detail_list_b:
  "get_tx_detail_list demo (map Some (slice [txid_of CHR ''b''] 0 50)) =
     Inr [Some (demo_tx (txid_of CHR ''b''))]"
  by (simp add: get_tx_detail_list_def slice_def txid_ok_def)

lemma demo_utxo_fields [simp]:
  "utxo_order demo = tx_num"
  "db_all_utxos demo k = Inr
         [\<lparr>tx_num = 9, tx_pos = 1, tx_hash = txid_of CHR ''2'', height = 90, utxo_value = 700\<rparr>,
          \<lparr>tx_num = 4, tx_pos = 0, tx_hash = txid_of CHR ''1'', height = 40, utxo_value = 500\<rparr>]"
  "mempool_unordered_UTXOs demo k = Inr
         [\<lparr>tx_num = - 1, tx_pos = 0, tx_hash = txid_of CHR ''a'', height = 0, utxo_value = 300\<rparr>]"
  "mempool_potential_spends demo k = Inr {(txid_of CHR ''1'', 0)}"
  by (simp_all add: demo_def)

lemma demo_hex_inj: "inj (hash_to_hex_str demo)"
  by (rule injI) simp

lemma two_outputs_readable: "\<forall>item \<in> set two_outputs. \<not> isl (first_address item)"
  by (simp add: two_outputs_def first_address_def)

lemma two_outputs_tx_vout: "td_vout two_outputs_tx = Some two_outputs"
  by (simp add: two_outputs_tx_def)

subsection \<open>Instances\<close>

text \<open>
  Three addresses are requested; the only transaction of the second has an input whose
  script the daemon fails to decode.
\<close>

theorem history_fails_as_a_whole_witness:
  "\<exists>e. history demo (Some ''addrA,addrB,addrC'') 0 50 = Inl e"
proof -
  have p: "check_pagination 0 50 = Inr (0, 50)"
    by (simp add: check_pagination_def MAX_TX_QUERY_def)
  have m: "''addrB'' \<in> set (split CHR '','' ''addrA,addrB,addrC'')"
    by (simp add: demo_split)
  have f: "isl (process_single_tx_record demo (Some (demo_tx (txid_of CHR ''b''))))"
    by (simp add: demo_record_b)
  show ?thesis
    using history_fails_as_a_whole [OF p m, of demo] demo_txid_list_b demo_detail_list_b f
    by auto
qed


text \<open>The utxo of transaction 1 at index 0 has a pending spend and is left out.\<close>

theorem listunspent_excludes_spends_witness:
  "hashX_listunspent demo ''addrA'' =
     Inr [\<lparr>u_tx_hash = txid_of CHR ''2'', u_tx_pos = 1, u_height = 90, u_value = 700\<rparr>,
          \<lparr>u_tx_hash = txid_of CHR ''a'', u_tx_pos = 0, u_height = 0, u_value = 300\<rparr>] \<and>
   (txid_of CHR ''1'', 0) \<notin> set [(txid_of CHR ''2'', 1), (txid_of CHR ''a'', 0 :: int)]"
  using listunspent_excludes_spends [of demo "''addrA''", OF demo_utxo_fields(2-4)] demo_hex_inj
  by (simp add: hashX_listunspent_def utxo_dict_def)

text \<open>
  One pending id, then the confirmed ids of heights 100 and 50, which the history
  lists in chain order.
\<close>

theorem txid_list_order_witness:
  "get_txid_list demo ''addrA'' =
     Inr [txid_of CHR ''a'', txid_of CHR ''1'', txid_of CHR ''5''] \<and>
   heights_in_order [(txid_of CHR ''5'', 50), (txid_of CHR ''1'', 100)] = [100, 50]"
proof -
  have a: "coin_address_to_hashX demo ''addrA'' = Some ''addrA''" by simp
  have b: "mempool_transaction_summaries demo ''addrA'' = Inr [\<lparr>summary_hash = txid_of CHR ''a''\<rparr>]"
    by simp
  have c: "session_mgr_history demo ''addrA'' =
      Inr [(txid_of CHR ''5'', 50), (txid_of CHR ''1'', 100)]"
    by simp
  show ?thesis
    using txid_list_order [OF a b c] by (simp add: heights_in_order_def)
qed

text \<open>
  The claim as stated fails where two confirmed transactions of an address are in the
  same block: their heights are equal, so the order is not strictly descending.
\<close>

theorem strict_height_order_counterexample:
  "session_mgr_history demo ''addrC'' = Inr [(txid_of CHR ''6'', 7), (txid_of CHR ''7'', 7)] \<and>
   get_txid_list demo ''addrC'' = Inr [txid_of CHR ''7'', txid_of CHR ''6''] \<and>
   heights_in_order [(txid_of CHR ''6'', 7), (txid_of CHR ''7'', 7)] = [7, 7] \<and>
   \<not> sorted_wrt (>) (heights_in_order [(txid_of CHR ''6'', 7), (txid_of CHR ''7'', 7)])"
  by (simp add: get_txid_list_def address_to_hashX_def get_unconfirmed_list_def
      get_confirmed_list_def gather2_def heights_in_order_def)

text \<open>The id \<open>zz...z\<close> reaches the daemon of the example, which answers.\<close>

theorem batch_accepts_non_hex_witness:
  "get_tx_detail_list demo [Some (replicate 64 CHR ''z'')] =
     Inr [Some (demo_tx (replicate 64 CHR ''z''))] \<and>
   get_tx_raw_list demo [Some (replicate 64 CHR ''z'')] = Inr [replicate 64 CHR ''z'']"
  using batch_accepts_non_hex [of demo] by simp

text \<open>Transaction 9 is unconfirmed and absent from the snapshot.\<close>

theorem unconfirmed_without_snapshot_entry_witness:
  "td_confirmations (demo_tx (txid_of CHR ''9'')) = None \<and>
   mempool_detail demo (Some (txid_of CHR ''9'')) = None \<and>
   process_single_tx_record demo (Some (demo_tx (txid_of CHR ''9''))) =
     Inl (UnboundLocalError ''tx_time'') \<and>
   Inl (UnboundLocalError ''tx_time'') \<noteq>
     (Inl (Exception ''cannot get the transaction time'') :: error + history_record)"
proof -
  have a: "td_confirmations (demo_tx (txid_of CHR ''9'')) = None"
    by (simp add: demo_tx_def)
  have b: "mempool_detail demo (td_txid (demo_tx (txid_of CHR ''9''))) = None"
    by (simp add: demo_tx_def)
  show ?thesis
    using unconfirmed_without_snapshot_entry [OF a b] a by simp
qed



text \<open>Both outputs to the address are kept; the entry is built from the first.\<close>

theorem unspent_first_match_witness:
  "wallet_unspent ''addrA'' (demo_unspent 0 50000000) two_outputs_tx =
   Inr \<lparr>w_address = ''addrA'', w_txid = txid_of CHR ''2'', w_vout = 0,
        w_scriptPubKey = ''76a914'', w_amount = PyFloat (1 / 2), w_satoshis = 50000000,
        w_height = 90, w_confirmations = 3\<rparr>"
proof -
  have a: "filter (selected ''addrA'' (u_tx_pos (demo_unspent 0 50000000))) two_outputs =
      two_outputs ! 0 # [two_outputs ! 1]"
    by (simp add: two_outputs_def demo_unspent_def first_address_def selected_def picks_def)
  have b: "vout_value (two_outputs ! 0) = Some (PyFloat (1 / 2))"
    by (simp add: two_outputs_def)
  have c: "vout_scriptPubKey (two_outputs ! 0) = Some \<lparr>spk_addresses = Some [''addrA''],
          spk_type = Some ''pubkeyhash'', spk_segwit = None, spk_hex = Some ''76a914''\<rparr>"
    by (simp add: two_outputs_def)
  have d: "spk_hex \<lparr>spk_addresses = Some [''addrA''],
          spk_type = Some ''pubkeyhash'', spk_segwit = None, spk_hex = Some ''76a914''\<rparr> =
        Some ''76a914''"
    by simp
  have e: "td_txid two_outputs_tx = Some (txid_of CHR ''2'')"
    by (simp add: two_outputs_tx_def)
  show ?thesis
    using unspent_first_match [OF two_outputs_tx_vout two_outputs_readable a b c d e]
    by (simp add: two_outputs_tx_def demo_unspent_def)
qed

end
